theory Spec2Isabelle
  imports Main
begin

section \<open>The Python integration example of vexy-svgo\<close>

text \<open>
  The development embeds \<^verbatim>\<open>examples/python-integration/main.py\<close>: a script that
  loads the native library through \<^verbatim>\<open>ctypes\<close>, declares the two foreign functions and
  the result structure, optimizes one SVG literal and prints the outcome.
  The script has no functions of its own, so every statement becomes a state transformer
  on the module's globals, named after its line, and \<open>main\<close> runs them in source order.
\<close>

subsection \<open>Values\<close>

text \<open>
  Python \<^verbatim>\<open>bytes\<close> are lists of \<^typ>\<open>char\<close> (a HOL character is one byte);
  a Python \<^verbatim>\<open>str\<close> is a list of Unicode code points.
\<close>

type_synonym bytes = "char list"
type_synonym pystr = "nat list"

text \<open>The \<^verbatim>\<open>ctypes\<close> type objects the script mentions.\<close>

datatype ctype =
    c_int
  | c_char_p
  | c_size_t
  | POINTER ctype
  | Structure string "(string \<times> ctype) list"

text \<open>
  The structure a result pointer refers to, read through the field types of lines 12--17.
  A \<^verbatim>\<open>c_char_p\<close> field holds an address: \<open>None\<close> is the null pointer, \<open>Some region\<close>
  stands for the bytes of the allocation from that address on. The integer fields are
  the Python integers \<^verbatim>\<open>ctypes\<close> hands out.
\<close>

record VexyResult =
  error_code :: int
  data :: "bytes option"
  data_length :: nat
  original_size :: nat
  optimized_size :: nat
  error_message :: "bytes option"

text \<open>What the call of a foreign function yields, by the declared \<^verbatim>\<open>restype\<close>.\<close>

datatype pyvalue =
    PtrVal "VexyResult option"
  | IntVal

datatype exn =
    OSError
  | AttributeError string
  | NameError string
  | ValueError
  | ArgumentError
  | UnicodeDecodeError
  | UnicodeEncodeError
  | MemoryFault

text \<open>
  The shared library as the dynamic loader presents it: the symbols it exports and what
  a producing function does on the C string it is handed (\<open>None\<close>: it returns NULL).
\<close>

record library =
  exported :: "string list"
  native :: "string \<Rightarrow> bytes \<Rightarrow> VexyResult option"

text \<open>A foreign function object: \<^verbatim>\<open>argtypes\<close> is unset and \<^verbatim>\<open>restype\<close> is \<^verbatim>\<open>c_int\<close> until assigned.\<close>

record cfunc =
  argtypes :: "ctype list option"
  restype :: ctype

datatype event =
    Loaded string
  | Resolved string
  | Invoked string
  | Printed pystr

text \<open>The module's globals (\<open>None\<close>: the name is not bound), the function objects
  cached on \<^verbatim>\<open>lib\<close>, and what has happened so far.\<close>

record globals =
  g_lib :: "library option"
  g_VexyResult :: "ctype option"
  g_svg :: "bytes option"
  g_result :: "pyvalue option"
  funcs :: "(string \<times> cfunc) list"
  trace :: "event list"

definition initial :: globals where
  "initial = \<lparr>g_lib = None, g_VexyResult = None, g_svg = None, g_result = None,
              funcs = [], trace = []\<rparr>"

type_synonym stmt = "globals \<Rightarrow> exn + globals"

subsection \<open>Library semantics the script relies on\<close>

definition NUL :: char where
  "NUL = CHR 0x00"

text \<open>
  Reading a \<^verbatim>\<open>c_char_p\<close>: null gives \<^verbatim>\<open>None\<close>, otherwise the bytes before the first NUL.
  With no NUL inside the allocation the read runs past it.
\<close>

definition c_char_p_value :: "bytes option \<Rightarrow> exn + bytes option" where
  "c_char_p_value p =
     (case p of
        None \<Rightarrow> Inr None
      | Some region \<Rightarrow>
          if NUL \<in> set region then Inr (Some (takeWhile (\<lambda>c. c \<noteq> NUL) region))
          else Inl MemoryFault)"

text \<open>Passing \<^verbatim>\<open>bytes\<close> as \<^verbatim>\<open>c_char_p\<close>: the callee sees a C string.\<close>

definition c_str :: "bytes \<Rightarrow> bytes" where
  "c_str b = takeWhile (\<lambda>c. c \<noteq> NUL) b"

definition is_cont :: "char \<Rightarrow> bool" where
  "is_cont c = (128 \<le> (of_char c :: nat) \<and> (of_char c :: nat) < 192)"

definition cont_val :: "char \<Rightarrow> nat" where
  "cont_val c = (of_char c :: nat) - 128"

text \<open>
  The first code point of a strict UTF-8 byte string and the number of bytes it takes
  (\<^verbatim>\<open>bytes.decode()\<close> with its defaults): no overlong forms, no surrogates, nothing
  above U+10FFFF.
\<close>

definition utf8_first :: "bytes \<Rightarrow> (nat \<times> nat) option" where
  "utf8_first bs =
     (case bs of
        [] \<Rightarrow> None
      | a # r \<Rightarrow>
          let x = (of_char a :: nat) in
          if x < 128 then Some (x, 1)
          else if 194 \<le> x \<and> x < 224 then
            (case r of
               b # _ \<Rightarrow> if is_cont b then Some ((x - 192) * 64 + cont_val b, 2) else None
             | _ \<Rightarrow> None)
          else if 224 \<le> x \<and> x < 240 then
            (case r of
               b # c # _ \<Rightarrow>
                 if is_cont b \<and> is_cont c
                    \<and> (x = 224 \<longrightarrow> 160 \<le> (of_char b :: nat))
                    \<and> (x = 237 \<longrightarrow> (of_char b :: nat) < 160)
                 then Some ((x - 224) * 4096 + cont_val b * 64 + cont_val c, 3)
                 else None
             | _ \<Rightarrow> None)
          else if 240 \<le> x \<and> x < 245 then
            (case r of
               b # c # d # _ \<Rightarrow>
                 if is_cont b \<and> is_cont c \<and> is_cont d
                    \<and> (x = 240 \<longrightarrow> 144 \<le> (of_char b :: nat))
                    \<and> (x = 244 \<longrightarrow> (of_char b :: nat) < 144)
                 then Some ((x - 240) * 262144 + cont_val b * 4096 + cont_val c * 64
                            + cont_val d, 4)
                 else None
             | _ \<Rightarrow> None)
          else None)"

function decode :: "bytes \<Rightarrow> pystr option" where
  "decode bs =
     (if bs = [] then Some []
      else case utf8_first bs of
             None \<Rightarrow> None
           | Some (cp, n) \<Rightarrow> map_option ((#) cp) (decode (drop n bs)))"
  by pat_completeness auto
termination
  by (relation "measure length")
     (auto simp: utf8_first_def Let_def split: list.splits if_splits)

declare decode.simps [simp del]

text \<open>
  Standard output, as \<^verbatim>\<open>print\<close> meets it: for a line of text, \<open>None\<close> when the line is
  written and \<open>Some e\<close> when writing it raises \<open>e\<close> (a \<^verbatim>\<open>UnicodeEncodeError\<close> when the
  stream's encoding cannot represent the text). Nothing is written when it raises.
\<close>

type_synonym stdout = "pystr \<Rightarrow> exn option"

text \<open>\<^verbatim>\<open>print(s)\<close>: the text and a newline go to standard output.\<close>

definition print :: "stdout \<Rightarrow> pystr \<Rightarrow> stmt" where
  "print out s g =
     (case out (s @ [10]) of
        Some e \<Rightarrow> Inl e
      | None \<Rightarrow> Inr (g\<lparr>trace := trace g @ [Printed (s @ [10])]\<rparr>))"

definition set_func :: "string \<Rightarrow> cfunc \<Rightarrow> (string \<times> cfunc) list \<Rightarrow> (string \<times> cfunc) list" where
  "set_func name f fs = (name, f) # filter (\<lambda>p. fst p \<noteq> name) fs"

text \<open>
  Attribute access \<^verbatim>\<open>lib.<name>\<close>: the function object cached on \<^verbatim>\<open>lib\<close>, or a fresh one
  when the library exports the symbol, or \<^verbatim>\<open>AttributeError\<close>.
\<close>

definition lib_getattr :: "string \<Rightarrow> globals \<Rightarrow> exn + (cfunc \<times> globals)" where
  "lib_getattr name g =
     (case g_lib g of
        None \<Rightarrow> Inl (NameError ''lib'')
      | Some l \<Rightarrow>
          (case map_of (funcs g) name of
             Some f \<Rightarrow> Inr (f, g)
           | None \<Rightarrow>
               if name \<in> set (exported l) then
                 let f = \<lparr>argtypes = None, restype = c_int\<rparr> in
                 Inr (f, g\<lparr>funcs := set_func name f (funcs g),
                           trace := trace g @ [Resolved name]\<rparr>)
               else Inl (AttributeError name)))"

subsection \<open>The statements of the script\<close>

definition lib_path :: string where
  "lib_path = ''../../target/release/libvexy_svgo_ffi.dylib''"

text \<open>
  Line 4: \<^verbatim>\<open>lib = ctypes.CDLL(...)\<close>; the loader raises \<^verbatim>\<open>OSError\<close> when it cannot load
  the file. The library object is new, so no function object is cached on it yet.
\<close>

definition line4 :: "(string \<Rightarrow> library option) \<Rightarrow> stmt" where
  "line4 dlopen g =
     (case dlopen lib_path of
        None \<Rightarrow> Inl OSError
      | Some l \<Rightarrow>
          Inr (g\<lparr>g_lib := Some l, funcs := [], trace := trace g @ [Loaded lib_path]\<rparr>))"

text \<open>Line 7: \<^verbatim>\<open>lib.vexy_svgo_optimize_default.argtypes = [ctypes.c_char_p]\<close>.\<close>

definition line7 :: stmt where
  "line7 g =
     (case lib_getattr ''vexy_svgo_optimize_default'' g of
        Inl e \<Rightarrow> Inl e
      | Inr (f, g') \<Rightarrow>
          Inr (g'\<lparr>funcs := set_func ''vexy_svgo_optimize_default''
                               (f\<lparr>argtypes := Some [c_char_p]\<rparr>) (funcs g')\<rparr>))"

text \<open>
  Line 8: \<^verbatim>\<open>lib.vexy_svgo_optimize_default.restype = ctypes.POINTER(VexyResult)\<close>.
  Python evaluates the right-hand side of an assignment first.
\<close>

definition line8 :: stmt where
  "line8 g =
     (case g_VexyResult g of
        None \<Rightarrow> Inl (NameError ''VexyResult'')
      | Some T \<Rightarrow>
          (case lib_getattr ''vexy_svgo_optimize_default'' g of
             Inl e \<Rightarrow> Inl e
           | Inr (f, g') \<Rightarrow>
               Inr (g'\<lparr>funcs := set_func ''vexy_svgo_optimize_default''
                                    (f\<lparr>restype := POINTER T\<rparr>) (funcs g')\<rparr>)))"

text \<open>Line 9: \<^verbatim>\<open>lib.vexy_svgo_free_result.argtypes = [ctypes.POINTER(VexyResult)]\<close>.\<close>

definition line9 :: stmt where
  "line9 g =
     (case g_VexyResult g of
        None \<Rightarrow> Inl (NameError ''VexyResult'')
      | Some T \<Rightarrow>
          (case lib_getattr ''vexy_svgo_free_result'' g of
             Inl e \<Rightarrow> Inl e
           | Inr (f, g') \<Rightarrow>
               Inr (g'\<lparr>funcs := set_func ''vexy_svgo_free_result''
                                    (f\<lparr>argtypes := Some [POINTER T]\<rparr>) (funcs g')\<rparr>)))"

text \<open>Lines 11--17: the class statement binds \<^verbatim>\<open>VexyResult\<close>.\<close>

definition VexyResult_fields :: "(string \<times> ctype) list" where
  "VexyResult_fields =
     [(''error_code'', c_int),
      (''data'', c_char_p),
      (''data_length'', c_size_t),
      (''original_size'', c_size_t),
      (''optimized_size'', c_size_t),
      (''error_message'', c_char_p)]"

definition line11 :: stmt where
  "line11 g = Inr (g\<lparr>g_VexyResult := Some (Structure ''VexyResult'' VexyResult_fields)\<rparr>)"

text \<open>Line 19: the SVG literal.\<close>

definition svg :: bytes where
  \<open>svg = ''<svg><g><rect width="100" height="100"/></g></svg>''\<close>

definition line19 :: stmt where
  "line19 g = Inr (g\<lparr>g_svg := Some svg\<rparr>)"

text \<open>
  Line 21: \<^verbatim>\<open>result = lib.vexy_svgo_optimize_default(svg)\<close>. A \<^verbatim>\<open>bytes\<close> argument is
  accepted both with \<^verbatim>\<open>argtypes\<close> unset and with \<^verbatim>\<open>[c_char_p]\<close>; the value returned is a
  pointer object only when \<^verbatim>\<open>restype\<close> is a pointer type.
\<close>

definition line21 :: stmt where
  "line21 g =
     (case lib_getattr ''vexy_svgo_optimize_default'' g of
        Inl e \<Rightarrow> Inl e
      | Inr (f, g') \<Rightarrow>
          (case g_svg g' of
             None \<Rightarrow> Inl (NameError ''svg'')
           | Some b \<Rightarrow>
               (case g_lib g' of
                  None \<Rightarrow> Inl (NameError ''lib'')
                | Some l \<Rightarrow>
                    let r = (case restype f of
                               POINTER T \<Rightarrow>
                                 PtrVal (native l ''vexy_svgo_optimize_default'' (c_str b))
                             | _ \<Rightarrow> IntVal)
                    in Inr (g'\<lparr>g_result := Some r,
                               trace := trace g'
                                 @ [Invoked ''vexy_svgo_optimize_default'']\<rparr>))))"

text \<open>\<^verbatim>\<open>result.contents\<close>: dereferencing a null pointer object raises \<^verbatim>\<open>ValueError\<close>.\<close>

definition contents :: "globals \<Rightarrow> exn + VexyResult" where
  "contents g =
     (case g_result g of
        None \<Rightarrow> Inl (NameError ''result'')
      | Some IntVal \<Rightarrow> Inl (AttributeError ''contents'')
      | Some (PtrVal None) \<Rightarrow> Inl ValueError
      | Some (PtrVal (Some r)) \<Rightarrow> Inr r)"

text \<open>\<^verbatim>\<open><field>.decode()\<close> on a \<^verbatim>\<open>c_char_p\<close> field.\<close>

definition field_decode :: "bytes option \<Rightarrow> exn + pystr" where
  "field_decode p =
     (case c_char_p_value p of
        Inl e \<Rightarrow> Inl e
      | Inr None \<Rightarrow> Inl (AttributeError ''decode'')
      | Inr (Some b) \<Rightarrow>
          (case decode b of None \<Rightarrow> Inl UnicodeDecodeError | Some s \<Rightarrow> Inr s))"

definition Error_prefix :: pystr where
  "Error_prefix = map of_char ''Error: ''"

text \<open>Lines 23--26: the branch on \<^verbatim>\<open>error_code\<close>.\<close>

definition line23 :: "stdout \<Rightarrow> stmt" where
  "line23 out g =
     (case contents g of
        Inl e \<Rightarrow> Inl e
      | Inr r \<Rightarrow>
          if error_code r = 0 then
            (case field_decode (data r) of
               Inl e \<Rightarrow> Inl e
             | Inr s \<Rightarrow> print out s g)
          else
            (case field_decode (error_message r) of
               Inl e \<Rightarrow> Inl e
             | Inr s \<Rightarrow> print out (Error_prefix @ s) g))"

text \<open>Line 28: \<^verbatim>\<open>lib.vexy_svgo_free_result(result)\<close>.\<close>

definition line28 :: stmt where
  "line28 g =
     (case lib_getattr ''vexy_svgo_free_result'' g of
        Inl e \<Rightarrow> Inl e
      | Inr (f, g') \<Rightarrow>
          (case g_result g' of
             None \<Rightarrow> Inl (NameError ''result'')
           | Some v \<Rightarrow>
               if argtypes f \<noteq> None \<and> v = IntVal then Inl ArgumentError
               else Inr (g'\<lparr>trace := trace g' @ [Invoked ''vexy_svgo_free_result'']\<rparr>)))"

subsection \<open>The script\<close>

text \<open>
  An uncaught exception ends the run; the outcome keeps the line of the statement that
  raised and the globals it started from.
\<close>

type_synonym outcome = "(nat \<times> exn \<times> globals) + globals"

definition at_line :: "nat \<Rightarrow> stmt \<Rightarrow> globals \<Rightarrow> outcome" where
  "at_line n s g = (case s g of Inl e \<Rightarrow> Inl (n, e, g) | Inr g' \<Rightarrow> Inr g')"

fun run :: "(globals \<Rightarrow> outcome) list \<Rightarrow> globals \<Rightarrow> outcome" where
  "run [] g = Inr g"
| "run (s # ss) g = (case s g of Inl e \<Rightarrow> Inl e | Inr g' \<Rightarrow> run ss g')"

text \<open>
  The statements in source order. The environment of a run is the dynamic loader and
  standard output.
\<close>

definition script :: "(string \<Rightarrow> library option) \<Rightarrow> stdout \<Rightarrow> (globals \<Rightarrow> outcome) list" where
  "script dlopen out =
     [at_line 4 (line4 dlopen),
      at_line 7 line7,
      at_line 8 line8,
      at_line 9 line9,
      at_line 11 line11,
      at_line 19 line19,
      at_line 21 line21,
      at_line 23 (line23 out),
      at_line 28 line28]"

text \<open>Running the file starts from a module in which none of its names is bound.\<close>

definition main :: "(string \<Rightarrow> library option) \<Rightarrow> stdout \<Rightarrow> outcome" where
  "main dlopen out = run (script dlopen out) initial"





fun is_call :: "event \<Rightarrow> bool" where
  "is_call (Invoked _) = True"
| "is_call _ = False"

subsection \<open>Concrete environments\<close>

text \<open>A machine on which the library file cannot be loaded.\<close>

definition no_library :: "string \<Rightarrow> library option" where
  "no_library path = None"

text \<open>A library exporting the two symbols the script asks for; its producer returns NULL.\<close>

definition stub_library :: library where
  "stub_library =
     \<lparr>exported = [''vexy_svgo_optimize_default'', ''vexy_svgo_free_result''],
      native = (\<lambda>name arg. None)\<rparr>"

definition stub_loader :: "string \<Rightarrow> library option" where
  "stub_loader path = (if path = lib_path then Some stub_library else None)"



text \<open>Globals in which \<^verbatim>\<open>result\<close> points to a given structure.\<close>

definition holding :: "VexyResult \<Rightarrow> globals" where
  "holding r = initial\<lparr>g_result := Some (PtrVal (Some r))\<rparr>"

text \<open>A success record whose three-byte payload has a NUL in the middle.\<close>

definition embedded_nul_result :: VexyResult where
  "embedded_nul_result =
     \<lparr>error_code = 0, data = Some [CHR ''a'', NUL, CHR ''b'', NUL], data_length = 3,
      original_size = 3, optimized_size = 3, error_message = None\<rparr>"

text \<open>A success record whose two-byte payload is followed by a NUL.\<close>

definition terminated_result :: VexyResult where
  "terminated_result =
     \<lparr>error_code = 0, data = Some [CHR ''o'', CHR ''k'', NUL], data_length = 2,
      original_size = 2, optimized_size = 2, error_message = None\<rparr>"

text \<open>A success record whose payload is the two bytes of U+00E9 in UTF-8.\<close>

definition accented_result :: VexyResult where
  "accented_result =
     \<lparr>error_code = 0, data = Some [CHR 0xC3, CHR 0xA9, NUL], data_length = 2,
      original_size = 2, optimized_size = 2, error_message = None\<rparr>"

text \<open>
  A standard output encoding UTF-8, which takes every code point but the surrogates, and
  one encoding ASCII.
\<close>

definition utf8_stdout :: stdout where
  "utf8_stdout s =
     (if list_all (\<lambda>c. c < 55296 \<or> (57343 < c \<and> c < 1114112)) s then None
      else Some UnicodeEncodeError)"

definition ascii_stdout :: stdout where
  "ascii_stdout s = (if list_all (\<lambda>c. c < 128) s then None else Some UnicodeEncodeError)"




subsection \<open>What the declared field types stand for\<close>

text \<open>
  The C representation behind a \<^verbatim>\<open>ctypes\<close> type on a platform whose pointers have \<open>w\<close>
  bits: \<^verbatim>\<open>c_int\<close> is C's \<^verbatim>\<open>int\<close>, 32 bits and signed on the platforms CPython runs on;
  \<^verbatim>\<open>c_size_t\<close> is \<^verbatim>\<open>size_t\<close>, unsigned and as wide as a pointer; \<^verbatim>\<open>c_char_p\<close> is
  a pointer to NUL-terminated bytes.
\<close>

datatype c_repr =
    Signed nat
  | Unsigned nat
  | Char_pointer
  | Object_pointer
  | Aggregate

fun repr :: "nat \<Rightarrow> ctype \<Rightarrow> c_repr" where
  "repr w c_int = Signed 32"
| "repr w c_char_p = Char_pointer"
| "repr w c_size_t = Unsigned w"
| "repr w (POINTER T) = Object_pointer"
| "repr w (Structure name fs) = Aggregate"

section \<open>Auxiliary facts\<close>

lemma decode_Nil: "decode [] = Some []"
  by (simp add: decode.simps)

lemma decode_ascii:
  "(of_char a :: nat) < 128 \<Longrightarrow> decode (a # bs) = map_option ((#) (of_char a)) (decode bs)"
  by (subst decode.simps) (simp add: utf8_first_def)




























lemma decode_two_bytes: "decode [CHR 0xC3, CHR 0xA9] = Some [233]"
  by (simp add: decode.simps utf8_first_def is_cont_def cont_val_def)

text \<open>
  The same payload prints on a UTF-8 standard output and raises on an ASCII one.
\<close>

lemma line23_stdout_encoding:
  "line23 utf8_stdout (holding accented_result)
     = Inr (holding accented_result\<lparr>trace := [Printed [233, 10]]\<rparr>)
   \<and> line23 ascii_stdout (holding accented_result) = Inl UnicodeEncodeError"
  by (simp add: line23_def contents_def holding_def accented_result_def initial_def
        field_decode_def c_char_p_value_def print_def utf8_stdout_def ascii_stdout_def
        NUL_def decode_two_bytes)

section \<open>Running the script as written\<close>

text \<open>
  C10, as stated: every execution of the script ends in a \<^verbatim>\<open>NameError\<close> at line 8.
  It does not hold where the shared library cannot be loaded: the run ends at line 4
  with \<^verbatim>\<open>OSError\<close>.
\<close>

theorem main_without_library_counterexample:
  "main no_library utf8_stdout = Inl (4, OSError, initial)"
  by (simp add: main_def script_def at_line_def line4_def no_library_def)

text \<open>
  C10, amended: in every environment the script ends in an exception raised no later
  than line 8 and before any foreign function has been invoked; whenever the library
  loads and exports \<^verbatim>\<open>vexy_svgo_optimize_default\<close>, that exception is the
  \<^verbatim>\<open>NameError\<close> for \<^verbatim>\<open>VexyResult\<close> at line 8, raised after line 7 has resolved the
  symbol and set its \<^verbatim>\<open>argtypes\<close>.
\<close>

theorem main_raises_before_any_call:
  "(\<exists>n e g. main dlopen out = Inl (n, e, g) \<and> n \<le> 8 \<and> filter is_call (trace g) = [])
   \<and> (\<forall>l. dlopen lib_path = Some l
            \<and> ''vexy_svgo_optimize_default'' \<in> set (exported l) \<longrightarrow>
          main dlopen out =
            Inl (8, NameError ''VexyResult'',
                 initial\<lparr>g_lib := Some l,
                   funcs := [(''vexy_svgo_optimize_default'',
                              \<lparr>argtypes = Some [c_char_p], restype = c_int\<rparr>)],
                   trace := [Loaded lib_path,
                             Resolved ''vexy_svgo_optimize_default'']\<rparr>))"
proof (intro conjI allI impI)
  show "\<exists>n e g. main dlopen out = Inl (n, e, g) \<and> n \<le> 8 \<and> filter is_call (trace g) = []"
    by (auto simp add: main_def script_def at_line_def line4_def line7_def line8_def
          lib_getattr_def initial_def set_func_def Let_def split: option.splits)
next
  fix l
  assume "dlopen lib_path = Some l \<and> ''vexy_svgo_optimize_default'' \<in> set (exported l)"
  then show "main dlopen out =
            Inl (8, NameError ''VexyResult'',
                 initial\<lparr>g_lib := Some l,
                   funcs := [(''vexy_svgo_optimize_default'',
                              \<lparr>argtypes = Some [c_char_p], restype = c_int\<rparr>)],
                   trace := [Loaded lib_path,
                             Resolved ''vexy_svgo_optimize_default'']\<rparr>)"
    by (simp add: main_def script_def at_line_def line4_def line7_def line8_def
          lib_getattr_def initial_def set_func_def Let_def)
qed

theorem main_raises_before_any_call_witness:
  "stub_loader lib_path = Some stub_library
   \<and> ''vexy_svgo_optimize_default'' \<in> set (exported stub_library)
   \<and> main stub_loader utf8_stdout =
       Inl (8, NameError ''VexyResult'',
            initial\<lparr>g_lib := Some stub_library,
              funcs := [(''vexy_svgo_optimize_default'',
                         \<lparr>argtypes = Some [c_char_p], restype = c_int\<rparr>)],
              trace := [Loaded lib_path, Resolved ''vexy_svgo_optimize_default'']\<rparr>)"
  using main_raises_before_any_call [of stub_loader utf8_stdout]
  by (simp add: stub_loader_def stub_library_def)

section \<open>The entry points\<close>





section \<open>The result structure\<close>

text \<open>
  C5: the class statement binds \<^verbatim>\<open>VexyResult\<close> to a structure of exactly six fields, in
  the order \<^verbatim>\<open>error_code\<close>, \<^verbatim>\<open>data\<close>, \<^verbatim>\<open>data_length\<close>, \<^verbatim>\<open>original_size\<close>,
  \<^verbatim>\<open>optimized_size\<close>, \<^verbatim>\<open>error_message\<close>: a 32-bit signed integer, a byte pointer, three
  unsigned integers of the platform's pointer width, and a pointer to NUL-terminated
  bytes.
\<close>

theorem VexyResult_declaration:
  "line11 g = Inr (g\<lparr>g_VexyResult := Some (Structure ''VexyResult'' VexyResult_fields)\<rparr>)
     \<and> length VexyResult_fields = 6
     \<and> map fst VexyResult_fields =
         [''error_code'', ''data'', ''data_length'', ''original_size'',
          ''optimized_size'', ''error_message'']
     \<and> map snd VexyResult_fields = [c_int, c_char_p, c_size_t, c_size_t, c_size_t, c_char_p]
     \<and> map (repr w \<circ> snd) VexyResult_fields =
         [Signed 32, Char_pointer, Unsigned w, Unsigned w, Unsigned w, Char_pointer]"
  by (simp add: line11_def VexyResult_fields_def)

section \<open>Reading the result\<close>

text \<open>
  C7, as stated: on success the caller decodes exactly \<^verbatim>\<open>data_length\<close> bytes, so an
  embedded NUL survives. For the three-byte payload \<^verbatim>\<open>a\0b\<close> the script prints
  \<^verbatim>\<open>a\<close> alone, although the three bytes decode to three code points.
\<close>

theorem line23_embedded_nul_counterexample:
  "error_code embedded_nul_result = 0
   \<and> line23 utf8_stdout (holding embedded_nul_result)
       = Inr (holding embedded_nul_result\<lparr>trace := [Printed [97, 10]]\<rparr>)
   \<and> map_option (take (data_length embedded_nul_result)) (data embedded_nul_result)
       = Some [CHR ''a'', NUL, CHR ''b'']
   \<and> decode [CHR ''a'', NUL, CHR ''b''] = Some [97, 0, 98]"
  by (simp add: line23_def contents_def holding_def embedded_nul_result_def initial_def
        field_decode_def c_char_p_value_def print_def utf8_stdout_def NUL_def
        decode_ascii decode_Nil)

text \<open>
  C7, amended: on success the caller reads \<^verbatim>\<open>data\<close> as a NUL-terminated C string and
  never consults \<^verbatim>\<open>data_length\<close>: what it decodes is the bytes before the first NUL.
  When they are not valid UTF-8 the statement raises \<^verbatim>\<open>UnicodeDecodeError\<close>;
  otherwise the decoded text and a newline go to standard output, which writes them or
  raises. The bytes decoded are the \<^verbatim>\<open>data_length\<close> bytes of the payload whenever the
  payload has no NUL in it and a NUL follows it.
\<close>

theorem line23_success_reads_c_string:
  assumes "g_result g = Some (PtrVal (Some r))" and "error_code r = 0"
    and "data r = Some region" and "NUL \<in> set region"
  shows "line23 out g =
           (case decode (takeWhile (\<lambda>c. c \<noteq> NUL) region) of
              None \<Rightarrow> Inl UnicodeDecodeError
            | Some s \<Rightarrow>
                (case out (s @ [10]) of
                   Some e \<Rightarrow> Inl e
                 | None \<Rightarrow> Inr (g\<lparr>trace := trace g @ [Printed (s @ [10])]\<rparr>)))
         \<and> (data_length r < length region \<and> region ! data_length r = NUL
              \<and> NUL \<notin> set (take (data_length r) region)
            \<longrightarrow> takeWhile (\<lambda>c. c \<noteq> NUL) region = take (data_length r) region)"
proof (intro conjI impI)
  show "line23 out g =
           (case decode (takeWhile (\<lambda>c. c \<noteq> NUL) region) of
              None \<Rightarrow> Inl UnicodeDecodeError
            | Some s \<Rightarrow>
                (case out (s @ [10]) of
                   Some e \<Rightarrow> Inl e
                 | None \<Rightarrow> Inr (g\<lparr>trace := trace g @ [Printed (s @ [10])]\<rparr>)))"
    using assms
    by (simp add: line23_def contents_def field_decode_def c_char_p_value_def print_def
          split: option.splits)
next
  assume h: "data_length r < length region \<and> region ! data_length r = NUL
              \<and> NUL \<notin> set (take (data_length r) region)"
  show "takeWhile (\<lambda>c. c \<noteq> NUL) region = take (data_length r) region"
  proof (rule takeWhile_eq_take_P_nth)
    fix i
    assume i: "i < data_length r" "i < length region"
    then have "i < length (take (data_length r) region)" by simp
    then have "take (data_length r) region ! i \<in> set (take (data_length r) region)"
      by (rule nth_mem)
    with i have "region ! i \<in> set (take (data_length r) region)" by simp
    with h show "region ! i \<noteq> NUL" by metis
  next
    from h show "\<not> region ! data_length r \<noteq> NUL" by simp
  qed
qed

theorem line23_success_reads_c_string_witness:
  "g_result (holding terminated_result) = Some (PtrVal (Some terminated_result))
   \<and> error_code terminated_result = 0
   \<and> data terminated_result = Some [CHR ''o'', CHR ''k'', NUL]
   \<and> NUL \<in> set [CHR ''o'', CHR ''k'', NUL]
   \<and> line23 utf8_stdout (holding terminated_result)
       = Inr (holding terminated_result\<lparr>trace := [Printed [111, 107, 10]]\<rparr>)
   \<and> takeWhile (\<lambda>c. c \<noteq> NUL) [CHR ''o'', CHR ''k'', NUL]
       = take (data_length terminated_result) [CHR ''o'', CHR ''k'', NUL]"
  using line23_success_reads_c_string [of "holding terminated_result" terminated_result
          "[CHR ''o'', CHR ''k'', NUL]" utf8_stdout]
  by (simp add: holding_def terminated_result_def initial_def NUL_def utf8_stdout_def
        decode_ascii decode_Nil)

section \<open>The input document\<close>



end
